theory Spec2Isabelle
  imports Main
begin

section \<open>Legacy ranked-status encoding (app/adapters/osu_api_v2.py)\<close>

text \<open>
  Modelled from the spec: \<open>RankedStatus\<close> is declared in \<open>app.common_models\<close>, outside
  the three adapter modules. The spec calls it "the internal ranked-status enum"; its
  members are taken to be the seven that \<open>from_osu_api_status\<close> names.
\<close>

datatype RankedStatus =
  NOT_SUBMITTED | PENDING | UPDATE_AVAILABLE | RANKED | APPROVED | QUALIFIED | LOVED

text \<open>\<open>class SearchLegacyRankedStatus(IntEnum)\<close>, with the integer of each member.\<close>

datatype SearchLegacyRankedStatus =
  RANKED | FAVOURITES | QUALIFIED | PENDING | GRAVEYARD | MINE | ANY | LOVED

fun SearchLegacyRankedStatus_value :: "SearchLegacyRankedStatus \<Rightarrow> int" where
  "SearchLegacyRankedStatus_value SearchLegacyRankedStatus.RANKED = 0"
| "SearchLegacyRankedStatus_value FAVOURITES = 2"
| "SearchLegacyRankedStatus_value SearchLegacyRankedStatus.QUALIFIED = 3"
| "SearchLegacyRankedStatus_value SearchLegacyRankedStatus.PENDING = 4"
| "SearchLegacyRankedStatus_value GRAVEYARD = 5"
| "SearchLegacyRankedStatus_value MINE = 6"
| "SearchLegacyRankedStatus_value ANY = 7"
| "SearchLegacyRankedStatus_value SearchLegacyRankedStatus.LOVED = 8"

text \<open>
  The source builds a dict literal and reads it with \<open>.get\<close>, which answers \<open>None\<close> for
  a key that is absent. The literal is the association list below, in the source's order.
\<close>

definition from_osu_api_status_table ::
  "(RankedStatus \<times> SearchLegacyRankedStatus option) list" where
  "from_osu_api_status_table =
     [(NOT_SUBMITTED, None),
      (RankedStatus.PENDING, Some SearchLegacyRankedStatus.PENDING),
      (UPDATE_AVAILABLE, None),
      (RankedStatus.RANKED, Some SearchLegacyRankedStatus.RANKED),
      (APPROVED, Some SearchLegacyRankedStatus.RANKED),
      (RankedStatus.QUALIFIED, Some SearchLegacyRankedStatus.QUALIFIED),
      (RankedStatus.LOVED, Some SearchLegacyRankedStatus.LOVED)]"

definition dict_get :: "('k \<times> 'v option) list \<Rightarrow> 'k \<Rightarrow> 'v option" where
  "dict_get d k = (case map_of d k of None \<Rightarrow> None | Some v \<Rightarrow> v)"

definition from_osu_api_status :: "RankedStatus \<Rightarrow> SearchLegacyRankedStatus option" where
  "from_osu_api_status osu_api_status = dict_get from_osu_api_status_table osu_api_status"

section \<open>Exceptions, responses and the observable world\<close>

text \<open>
  The exceptions the adapters can meet, all subclasses of \<open>Exception\<close>:
  \<open>HTTPStatusError\<close> from \<open>raise_for_status\<close> (with the status), a failure of
  \<open>response.json()\<close>, a failed \<open>assert\<close>, a failure of the pydantic constructor, any
  other exception raised by the HTTP client (transport failure, timeout), and the
  mirrors' \<open>MirrorRequestError\<close> with its cause (\<open>raise ... from exc\<close>).
\<close>

datatype exception =
  HTTPStatusError int
| JSONDecodeError
| AssertionError
| ValidationError
| ClientException string
| MirrorRequestError exception

type_synonym bytes = string

text \<open>
  What the code reads of an \<open>httpx.Response\<close>: \<open>request.url\<close>, \<open>status_code\<close>,
  \<open>headers.get\<close>, \<open>read()\<close> and \<open>json()\<close>. The result of \<open>json()\<close> is an exception,
  JSON \<open>null\<close> (Python \<open>None\<close>) or a parsed value of type \<open>'j\<close>.
\<close>

record 'j response =
  request_url :: string
  status_code :: int
  headers_get :: "string \<Rightarrow> string option"
  read :: bytes
  json :: "exception + 'j option"

text \<open>
  \<open>httpx.Response.raise_for_status\<close>: returns on a success status (200 to 299) and
  raises \<open>HTTPStatusError\<close> on every other one.
\<close>

definition is_success :: "'j response \<Rightarrow> bool" where
  "is_success response = (200 \<le> status_code response \<and> status_code response \<le> 299)"

definition raise_for_status :: "'j response \<Rightarrow> exception option" where
  "raise_for_status response =
     (if is_success response then None else Some (HTTPStatusError (status_code response)))"

text \<open>An awaited \<open>http_client.get\<close> either raises or returns a response.\<close>

datatype 'j http_outcome = Raises exception | Returns "'j response"

text \<open>
  The values of the \<open>params\<close> dict of a request. \<open>'m\<close> stands for
  \<open>app.common_models.GameMode\<close>, which the adapter only passes on.
\<close>

datatype 'm param =
  PNone | PStr string | PInt int | PGameMode 'm | PRankedStatus SearchLegacyRankedStatus

record 'm request =
  http_method :: string
  url :: string
  params :: "(string \<times> 'm param) list"

subsection \<open>Time, as \<open>datetime\<close> in UTC\<close>

record datetime =
  year :: nat
  month :: nat
  day :: nat
  hour :: nat
  minute :: nat
  second :: nat
  microsecond :: nat

definition digit_char :: "nat \<Rightarrow> char" where
  "digit_char d = char_of (48 + d)"

fun str_nat :: "nat \<Rightarrow> string" where
  "str_nat n = (if n < 10 then [digit_char n] else str_nat (n div 10) @ [digit_char (n mod 10)])"

text \<open>\<open>str\<close> of a Python int, as an f-string renders it.\<close>

definition str_int :: "int \<Rightarrow> string" where
  "str_int i = (if i < 0 then CHR ''-'' # str_nat (nat (- i)) else str_nat (nat i))"

text \<open>\<open>"%0wd"\<close>: decimal, left-padded with zeros to at least \<open>w\<close> characters.\<close>

definition zfill :: "nat \<Rightarrow> nat \<Rightarrow> string" where
  "zfill w n = replicate (w - length (str_nat n)) CHR ''0'' @ str_nat n"

text \<open>\<open>.replace(second=0, microsecond=0)\<close>\<close>

definition replace_second_microsecond :: "datetime \<Rightarrow> datetime" where
  "replace_second_microsecond t = t\<lparr>second := 0, microsecond := 0\<rparr>"

text \<open>
  \<open>datetime.isoformat()\<close> of a datetime whose tzinfo is \<open>timezone.utc\<close>: the fraction
  is printed only when the microseconds are not zero, the offset is \<open>+00:00\<close>.
\<close>

definition isoformat :: "datetime \<Rightarrow> string" where
  "isoformat t =
     zfill 4 (year t) @ ''-'' @ zfill 2 (month t) @ ''-'' @ zfill 2 (day t) @ ''T'' @
     zfill 2 (hour t) @ '':'' @ zfill 2 (minute t) @ '':'' @ zfill 2 (second t) @
     (if microsecond t \<noteq> 0 then ''.'' @ zfill 6 (microsecond t) else []) @ ''+00:00''"

subsection \<open>Log records and the world\<close>

datatype levelname = INFO | WARNING | ERROR

text \<open>
  The \<open>extra\<close> of a log record: none, the rate-limit fields (\<open>request_url\<close>,
  \<open>remaining\<close>, \<open>limit\<close>, \<open>reset_utc\<close>), or \<open>osu_api_response_data\<close>.
\<close>

datatype 'j extra =
  NoExtra
| Ratelimit string "string option" "string option" string
| OsuApiResponseData "'j option"

record 'j log_record =
  level :: levelname
  msg :: string
  exc_info :: "exception option"
  extra :: "'j extra"

text \<open>
  What a call leaves behind: the log records emitted and the requests handed to an HTTP
  client, each in order.
\<close>

record ('j, 'm) world =
  logs :: "'j log_record list"
  sent :: "'m request list"

definition emit :: "'j log_record \<Rightarrow> ('j, 'm) world \<Rightarrow> ('j, 'm) world" where
  "emit r w = w\<lparr>logs := logs w @ [r]\<rparr>"

definition logging_info :: "string \<Rightarrow> 'j extra \<Rightarrow> ('j, 'm) world \<Rightarrow> ('j, 'm) world" where
  "logging_info m x = emit \<lparr>level = INFO, msg = m, exc_info = None, extra = x\<rparr>"

text \<open>\<open>logging.warning(m, exc_info=True)\<close> inside an \<open>except\<close> block that caught \<open>e\<close>.\<close>

definition logging_warning :: "string \<Rightarrow> exception \<Rightarrow> ('j, 'm) world \<Rightarrow> ('j, 'm) world" where
  "logging_warning m e = emit \<lparr>level = WARNING, msg = m, exc_info = Some e, extra = NoExtra\<rparr>"

text \<open>\<open>logging.exception(m, extra=x)\<close> inside an \<open>except\<close> block that caught \<open>e\<close>.\<close>

definition logging_exception ::
  "string \<Rightarrow> exception \<Rightarrow> 'j extra \<Rightarrow> ('j, 'm) world \<Rightarrow> ('j, 'm) world" where
  "logging_exception m e x = emit \<lparr>level = ERROR, msg = m, exc_info = Some e, extra = x\<rparr>"

section \<open>The authenticated API client (app/adapters/osu_api_v2.py)\<close>

definition OSU_API_V2_TOKEN_ENDPOINT :: string where
  "OSU_API_V2_TOKEN_ENDPOINT = ''https://osu.ppy.sh/oauth/token''"

text \<open>
  The response hook. \<open>now\<close> is the value of \<open>datetime.now(tz=timezone.utc)\<close> at the
  moment of the call.
\<close>

definition log_osu_api_response ::
  "datetime \<Rightarrow> 'j response \<Rightarrow> ('j, 'm) world \<Rightarrow> ('j, 'm) world" where
  "log_osu_api_response now response w =
     (if request_url response = OSU_API_V2_TOKEN_ENDPOINT \<or> status_code response = 401
      then w
      else logging_info ''Made authorized request to osu! api''
             (Ratelimit (request_url response)
                (headers_get response ''X-Ratelimit-Remaining'')
                (headers_get response ''X-Ratelimit-Limit'')
                (isoformat (replace_second_microsecond now)))
             w)"

definition osu_api_v2_base_url :: string where
  "osu_api_v2_base_url = ''https://osu.ppy.sh/api/v2/''"

text \<open>
  \<open>osu_api_v2_http_client.get(path, params=...)\<close>: the request goes out under the
  client's \<open>base_url\<close>; when a response comes back the response hook runs on it before
  the caller sees it. \<open>http\<close> is the upstream: what it answers to a request. The token
  exchange of \<open>app.oauth\<close> lies outside the adapter modules and is not part of this model.
\<close>

definition osu_api_v2_http_client_get ::
  "('m request \<Rightarrow> 'j http_outcome) \<Rightarrow> datetime \<Rightarrow> string \<Rightarrow> (string \<times> 'm param) list \<Rightarrow>
   ('j, 'm) world \<Rightarrow> (exception + 'j response) \<times> ('j, 'm) world" where
  "osu_api_v2_http_client_get http now path ps w =
     (let req = \<lparr>http_method = ''GET'', url = osu_api_v2_base_url @ path, params = ps\<rparr>;
          w1 = w\<lparr>sent := sent w @ [req]\<rparr>
      in case http req of
           Raises e \<Rightarrow> (Inl e, w1)
         | Returns response \<Rightarrow> (Inr response, log_osu_api_response now response w1))"

text \<open>
  The body shared by the three operations after the response has arrived:
  \<open>raise_for_status\<close>, \<open>json()\<close>, the \<open>assert\<close>, the pydantic constructor \<open>model\<close>;
  every exception goes through the \<open>except Exception\<close> block, which logs
  \<open>osu_api_response_data\<close> as it stands at that moment and re-raises.
\<close>

definition log_and_raise ::
  "string \<Rightarrow> 'j option \<Rightarrow> exception \<Rightarrow> ('j, 'm) world \<Rightarrow> (exception + 'a) \<times> ('j, 'm) world" where
  "log_and_raise m osu_api_response_data e w =
     (Inl e, logging_exception m e (OsuApiResponseData osu_api_response_data) w)"

definition decode_response ::
  "string \<Rightarrow> ('j \<Rightarrow> exception + 'r) \<Rightarrow> 'j response \<Rightarrow> ('j, 'm) world \<Rightarrow>
   (exception + 'r) \<times> ('j, 'm) world" where
  "decode_response m model response w =
     (case raise_for_status response of
        Some e \<Rightarrow> log_and_raise m None e w
      | None \<Rightarrow>
          (case json response of
             Inl e \<Rightarrow> log_and_raise m None e w
           | Inr None \<Rightarrow> log_and_raise m None AssertionError w
           | Inr (Some osu_api_response_data) \<Rightarrow>
               (case model osu_api_response_data of
                  Inl e \<Rightarrow> log_and_raise m (Some osu_api_response_data) e w
                | Inr v \<Rightarrow> (Inr v, w))))"



text \<open>\<open>cursor_string: str | None\<close> as it is stored in the \<open>params\<close> dict.\<close>

definition str_or_none :: "string option \<Rightarrow> 'm param" where
  "str_or_none v = (case v of None \<Rightarrow> PNone | Some s \<Rightarrow> PStr s)"

definition search_beatmapsets ::
  "('j \<Rightarrow> exception + 'r) \<Rightarrow> ('m request \<Rightarrow> 'j http_outcome) \<Rightarrow> datetime \<Rightarrow>
   string \<Rightarrow> SearchLegacyRankedStatus \<Rightarrow> 'm \<Rightarrow> int \<Rightarrow> int \<Rightarrow> string option \<Rightarrow>
   ('j, 'm) world \<Rightarrow> (exception + 'r) \<times> ('j, 'm) world" where
  "search_beatmapsets BeatmapsetSearchResponse http now
       query ranked_status mode page page_size cursor_string w =
     (case osu_api_v2_http_client_get http now ''beatmapsets/search''
             [(''q'', PStr query),
              (''m'', PGameMode mode),
              (''r'', PRankedStatus ranked_status),
              (''page'', PInt page),
              (''limit'', PInt page_size),
              (''cursor_string'', str_or_none cursor_string)] w of
        (Inl e, w1) \<Rightarrow> log_and_raise ''Failed to fetch beatmapsets from osu! API'' None e w1
      | (Inr response, w1) \<Rightarrow>
          decode_response ''Failed to fetch beatmapsets from osu! API''
            BeatmapsetSearchResponse response w1)"

section \<open>The mirror backends\<close>

text \<open>
  \<open>self.http_client.get(url)\<close> of a mirror: the client comes from the base class, which
  lies outside the two mirror modules; \<open>http\<close> is what it answers to a request.
\<close>

definition mirror_http_client_get ::
  "('m request \<Rightarrow> 'j http_outcome) \<Rightarrow> string \<Rightarrow> ('j, 'm) world \<Rightarrow>
   (exception + 'j response) \<times> ('j, 'm) world" where
  "mirror_http_client_get http u w =
     (let req = \<lparr>http_method = ''GET'', url = u, params = []\<rparr>;
          w1 = w\<lparr>sent := sent w @ [req]\<rparr>
      in case http req of
           Raises e \<Rightarrow> (Inl e, w1)
         | Returns response \<Rightarrow> (Inr response, w1))"

subsection \<open>app/adapters/osu_mirrors/backends/ripple.py\<close>

definition RippleMirror_base_url :: string where
  "RippleMirror_base_url = ''https://storage.ripple.moe''"

definition RippleMirror_except ::
  "exception \<Rightarrow> ('j, 'm) world \<Rightarrow> (exception + bytes option) \<times> ('j, 'm) world" where
  "RippleMirror_except exc w =
     (Inl (MirrorRequestError exc),
      logging_warning ''Failed to fetch beatmap from ripple.moe'' exc w)"

definition RippleMirror_fetch_beatmap_zip_data ::
  "('m request \<Rightarrow> 'j http_outcome) \<Rightarrow> int \<Rightarrow> ('j, 'm) world \<Rightarrow>
   (exception + bytes option) \<times> ('j, 'm) world" where
  "RippleMirror_fetch_beatmap_zip_data http beatmapset_id w =
     (let w0 = logging_info (''Fetching beatmapset osz2 from ripple: '' @ str_int beatmapset_id)
                 NoExtra w
      in case mirror_http_client_get http
                (RippleMirror_base_url @ ''/d/'' @ str_int beatmapset_id) w0 of
           (Inl exc, w1) \<Rightarrow> RippleMirror_except exc w1
         | (Inr response, w1) \<Rightarrow>
             if status_code response = 404 then (Inr None, w1)
             else (case raise_for_status response of
                     Some exc \<Rightarrow> RippleMirror_except exc w1
                   | None \<Rightarrow> (Inr (Some (read response)), w1)))"

subsection \<open>app/adapters/beatmap_mirrors/mino.py\<close>

definition MinoMirror_base_url :: string where
  "MinoMirror_base_url = ''https://catboy.best''"

definition MinoMirror_except ::
  "exception \<Rightarrow> ('j, 'm) world \<Rightarrow> (exception + bytes option) \<times> ('j, 'm) world" where
  "MinoMirror_except exc w =
     (Inr None, logging_warning ''Failed to fetch beatmap from catboy.best'' exc w)"

definition MinoMirror_fetch_beatmap_zip_data ::
  "('m request \<Rightarrow> 'j http_outcome) \<Rightarrow> int \<Rightarrow> ('j, 'm) world \<Rightarrow>
   (exception + bytes option) \<times> ('j, 'm) world" where
  "MinoMirror_fetch_beatmap_zip_data http beatmapset_id w =
     (let w0 = logging_info (''Fetching beatmapset osz2 from mino: '' @ str_int beatmapset_id)
                 NoExtra w
      in case mirror_http_client_get http
                (MinoMirror_base_url @ ''/d/'' @ str_int beatmapset_id) w0 of
           (Inl exc, w1) \<Rightarrow> MinoMirror_except exc w1
         | (Inr response, w1) \<Rightarrow>
             (case raise_for_status response of
                Some exc \<Rightarrow> MinoMirror_except exc w1
              | None \<Rightarrow> (Inr (Some (read response)), w1)))"

text \<open>The log records that carry \<open>osu_api_response_data\<close>.\<close>

fun is_payload_log :: "'j log_record \<Rightarrow> bool" where
  "is_payload_log r = (case extra r of OsuApiResponseData _ \<Rightarrow> True | _ \<Rightarrow> False)"

fun is_ratelimit_log :: "'j log_record \<Rightarrow> bool" where
  "is_ratelimit_log r = (case extra r of Ratelimit _ _ _ _ \<Rightarrow> True | _ \<Rightarrow> False)"

text \<open>
  The outcome "raised \<open>e\<close> after logging": the call ends in the exception \<open>e\<close>, the
  last record it logged is the \<open>logging.exception\<close> record with message \<open>m\<close>, that
  exception and \<open>osu_api_response_data = payload\<close>, and this is the one payload record
  added to those of the world \<open>w\<close> before the call.
\<close>

definition raised_after_logging ::
  "string \<Rightarrow> 'j option \<Rightarrow> exception \<Rightarrow> ('j, 'm) world \<Rightarrow>
   (exception + 'a) \<times> ('j, 'm) world \<Rightarrow> bool" where
  "raised_after_logging m payload e w res =
     (fst res = Inl e \<and>
      logs (snd res) \<noteq> [] \<and>
      last (logs (snd res)) =
        \<lparr>level = ERROR, msg = m, exc_info = Some e, extra = OsuApiResponseData payload\<rparr> \<and>
      filter is_payload_log (logs (snd res)) =
        filter is_payload_log (logs w) @
          [\<lparr>level = ERROR, msg = m, exc_info = Some e, extra = OsuApiResponseData payload\<rparr>])"

section \<open>Properties of the legacy ranked-status mapping\<close>

text \<open>
  Claim C4. \<open>from_osu_api_status\<close> is total over \<open>RankedStatus\<close>: every status is sent
  either to no filter (\<open>None\<close>) or to one member of \<open>SearchLegacyRankedStatus\<close>, whose
  integer is one of 0, 2, 3, 4, 5, 6, 7, 8; and the result for each status is the fixed
  one listed here. The mapping reads no state (the source builds its dict afresh at each
  call), so it is a function of its argument alone and every call with the same status
  gives the same result. A status missing from the dict would get \<open>None\<close> from \<open>.get\<close>.
\<close>

theorem from_osu_api_status_total:
  "(from_osu_api_status s = None \<or>
    (\<exists>l. from_osu_api_status s = Some l \<and>
         SearchLegacyRankedStatus_value l \<in> {0, 2, 3, 4, 5, 6, 7, 8}))
   \<and> from_osu_api_status NOT_SUBMITTED = None
   \<and> from_osu_api_status RankedStatus.PENDING = Some SearchLegacyRankedStatus.PENDING
   \<and> from_osu_api_status UPDATE_AVAILABLE = None
   \<and> from_osu_api_status RankedStatus.RANKED = Some SearchLegacyRankedStatus.RANKED
   \<and> from_osu_api_status APPROVED = Some SearchLegacyRankedStatus.RANKED
   \<and> from_osu_api_status RankedStatus.QUALIFIED = Some SearchLegacyRankedStatus.QUALIFIED
   \<and> from_osu_api_status RankedStatus.LOVED = Some SearchLegacyRankedStatus.LOVED"
  by (cases s) (simp_all add: from_osu_api_status_def from_osu_api_status_table_def dict_get_def)

text \<open>
  Claim C10. The results of \<open>from_osu_api_status\<close> lie in
  \<open>{RANKED, PENDING, QUALIFIED, LOVED, None}\<close>; the two distinct statuses \<open>RANKED\<close> and
  \<open>APPROVED\<close> both go to the legacy \<open>RANKED\<close>, whose integer is 0, so the mapping is not
  injective; and \<open>FAVOURITES\<close>, \<open>GRAVEYARD\<close>, \<open>MINE\<close> and \<open>ANY\<close> are the result for no
  status.
\<close>

theorem from_osu_api_status_range:
  "from_osu_api_status s \<in>
     {Some SearchLegacyRankedStatus.RANKED, Some SearchLegacyRankedStatus.PENDING,
      Some SearchLegacyRankedStatus.QUALIFIED, Some SearchLegacyRankedStatus.LOVED, None}
   \<and> from_osu_api_status s \<notin> {Some FAVOURITES, Some GRAVEYARD, Some MINE, Some ANY}
   \<and> RankedStatus.RANKED \<noteq> APPROVED
   \<and> from_osu_api_status RankedStatus.RANKED = Some SearchLegacyRankedStatus.RANKED
   \<and> from_osu_api_status APPROVED = Some SearchLegacyRankedStatus.RANKED
   \<and> SearchLegacyRankedStatus_value SearchLegacyRankedStatus.RANKED = 0"
  by (cases s) (simp_all add: from_osu_api_status_def from_osu_api_status_table_def dict_get_def)

section \<open>Properties of the response hook\<close>

lemma zfill_2_0: "zfill 2 0 = ''00''"
  by code_simp

lemma isoformat_minute_start:
  "isoformat (replace_second_microsecond t) =
     zfill 4 (year t) @ ''-'' @ zfill 2 (month t) @ ''-'' @ zfill 2 (day t) @ ''T'' @
     zfill 2 (hour t) @ '':'' @ zfill 2 (minute t) @ '':00+00:00''"
  by (simp add: isoformat_def replace_second_microsecond_def zfill_2_0)

text \<open>
  Claim C5. \<open>log_osu_api_response\<close> appends a rate-limit log record exactly when the
  request URL is not the token endpoint and the status is not 401; for the token endpoint
  and for every 401 response it leaves the world, and so the log, as it was.
\<close>

theorem log_osu_api_response_iff:
  "((\<exists>entry. is_ratelimit_log entry \<and>
             logs (log_osu_api_response now response w) = logs w @ [entry])
      \<longleftrightarrow> (request_url response \<noteq> OSU_API_V2_TOKEN_ENDPOINT \<and> status_code response \<noteq> 401))
   \<and> ((request_url response = OSU_API_V2_TOKEN_ENDPOINT \<or> status_code response = 401)
        \<longrightarrow> log_osu_api_response now response w = w)"
  by (auto simp: log_osu_api_response_def logging_info_def emit_def)

theorem log_osu_api_response_iff_witness:
  "(\<exists>entry. is_ratelimit_log entry \<and>
      logs (log_osu_api_response
              \<lparr>year = 2024, month = 6, day = 20, hour = 12, minute = 34, second = 56,
                microsecond = 789\<rparr>
              \<lparr>request_url = ''https://osu.ppy.sh/api/v2/beatmaps/75'', status_code = 200,
                headers_get = Map.empty, read = [], json = Inr (None :: unit option)\<rparr>
              \<lparr>logs = [], sent = ([] :: unit request list)\<rparr>) = [] @ [entry])
   \<and> log_osu_api_response
        \<lparr>year = 2024, month = 6, day = 20, hour = 12, minute = 34, second = 56,
          microsecond = 789\<rparr>
        \<lparr>request_url = ''https://osu.ppy.sh/api/v2/beatmaps/75'', status_code = 401,
          headers_get = Map.empty, read = [], json = Inr (None :: unit option)\<rparr>
        \<lparr>logs = [], sent = ([] :: unit request list)\<rparr>
      = \<lparr>logs = [], sent = []\<rparr>
   \<and> log_osu_api_response
        \<lparr>year = 2024, month = 6, day = 20, hour = 12, minute = 34, second = 56,
          microsecond = 789\<rparr>
        \<lparr>request_url = ''https://osu.ppy.sh/oauth/token'', status_code = 200,
          headers_get = Map.empty, read = [], json = Inr (None :: unit option)\<rparr>
        \<lparr>logs = [], sent = ([] :: unit request list)\<rparr>
      = \<lparr>logs = [], sent = []\<rparr>"
  using
    log_osu_api_response_iff
      [of "\<lparr>year = 2024, month = 6, day = 20, hour = 12, minute = 34, second = 56,
             microsecond = 789\<rparr>"
          "\<lparr>request_url = ''https://osu.ppy.sh/api/v2/beatmaps/75'', status_code = 200,
             headers_get = Map.empty, read = [], json = Inr (None :: unit option)\<rparr>"
          "\<lparr>logs = [], sent = ([] :: unit request list)\<rparr>"]
    log_osu_api_response_iff
      [of "\<lparr>year = 2024, month = 6, day = 20, hour = 12, minute = 34, second = 56,
             microsecond = 789\<rparr>"
          "\<lparr>request_url = ''https://osu.ppy.sh/api/v2/beatmaps/75'', status_code = 401,
             headers_get = Map.empty, read = [], json = Inr (None :: unit option)\<rparr>"
          "\<lparr>logs = [], sent = ([] :: unit request list)\<rparr>"]
    log_osu_api_response_iff
      [of "\<lparr>year = 2024, month = 6, day = 20, hour = 12, minute = 34, second = 56,
             microsecond = 789\<rparr>"
          "\<lparr>request_url = ''https://osu.ppy.sh/oauth/token'', status_code = 200,
             headers_get = Map.empty, read = [], json = Inr (None :: unit option)\<rparr>"
          "\<lparr>logs = [], sent = ([] :: unit request list)\<rparr>"]
  by (simp add: OSU_API_V2_TOKEN_ENDPOINT_def)

text \<open>
  Claim C6. The only record \<open>log_osu_api_response\<close> can append is the rate-limit record,
  and its \<open>reset_utc\<close> is the ISO rendering of the current UTC time with second and
  microsecond set to zero and year, month, day, hour and minute unchanged: the text of
  date, hour and minute followed by \<open>:00+00:00\<close>.
\<close>

theorem log_osu_api_response_reset_utc:
  "(logs (log_osu_api_response now response w) = logs w \<or>
    logs (log_osu_api_response now response w) = logs w @
      [\<lparr>level = INFO, msg = ''Made authorized request to osu! api'', exc_info = None,
        extra = Ratelimit (request_url response)
                  (headers_get response ''X-Ratelimit-Remaining'')
                  (headers_get response ''X-Ratelimit-Limit'')
                  (isoformat (replace_second_microsecond now))\<rparr>])
   \<and> second (replace_second_microsecond now) = 0
   \<and> microsecond (replace_second_microsecond now) = 0
   \<and> minute (replace_second_microsecond now) = minute now
   \<and> hour (replace_second_microsecond now) = hour now
   \<and> day (replace_second_microsecond now) = day now
   \<and> month (replace_second_microsecond now) = month now
   \<and> year (replace_second_microsecond now) = year now
   \<and> isoformat (replace_second_microsecond now) =
       zfill 4 (year now) @ ''-'' @ zfill 2 (month now) @ ''-'' @ zfill 2 (day now) @ ''T'' @
       zfill 2 (hour now) @ '':'' @ zfill 2 (minute now) @ '':00+00:00''"
  by (simp add: log_osu_api_response_def logging_info_def emit_def isoformat_minute_start)
     (simp add: replace_second_microsecond_def)

lemma zfill_examples:
  "zfill 4 2024 = ''2024''" "zfill 2 6 = ''06''" "zfill 2 20 = ''20''"
  "zfill 2 12 = ''12''" "zfill 2 34 = ''34''"
  by code_simp+

theorem log_osu_api_response_reset_utc_witness:
  "logs (log_osu_api_response
           \<lparr>year = 2024, month = 6, day = 20, hour = 12, minute = 34, second = 56,
             microsecond = 789\<rparr>
           \<lparr>request_url = ''https://osu.ppy.sh/api/v2/beatmaps/75'', status_code = 200,
             headers_get = [''X-Ratelimit-Remaining'' \<mapsto> ''1198'',
                            ''X-Ratelimit-Limit'' \<mapsto> ''1200''],
             read = [], json = Inr (None :: unit option)\<rparr>
           \<lparr>logs = [], sent = ([] :: unit request list)\<rparr>) =
     [\<lparr>level = INFO, msg = ''Made authorized request to osu! api'', exc_info = None,
       extra = Ratelimit ''https://osu.ppy.sh/api/v2/beatmaps/75'' (Some ''1198'')
                 (Some ''1200'') ''2024-06-20T12:34:00+00:00''\<rparr>]"
  using
    log_osu_api_response_reset_utc
      [of "\<lparr>year = 2024, month = 6, day = 20, hour = 12, minute = 34, second = 56,
             microsecond = 789\<rparr>"
          "\<lparr>request_url = ''https://osu.ppy.sh/api/v2/beatmaps/75'', status_code = 200,
             headers_get = [''X-Ratelimit-Remaining'' \<mapsto> ''1198'',
                            ''X-Ratelimit-Limit'' \<mapsto> ''1200''],
             read = [], json = Inr (None :: unit option)\<rparr>"
          "\<lparr>logs = [], sent = ([] :: unit request list)\<rparr>"]
  by (simp add: zfill_examples log_osu_api_response_def logging_info_def emit_def
        OSU_API_V2_TOKEN_ENDPOINT_def)

section \<open>Properties of the API operations\<close>

lemma client_get_Raises:
  "http \<lparr>http_method = ''GET'', url = osu_api_v2_base_url @ path, params = ps\<rparr> = Raises e \<Longrightarrow>
   osu_api_v2_http_client_get http now path ps w =
     (Inl e, w\<lparr>sent := sent w @
        [\<lparr>http_method = ''GET'', url = osu_api_v2_base_url @ path, params = ps\<rparr>]\<rparr>)"
  by (simp add: osu_api_v2_http_client_get_def)

lemma client_get_Returns:
  "http \<lparr>http_method = ''GET'', url = osu_api_v2_base_url @ path, params = ps\<rparr> = Returns r \<Longrightarrow>
   osu_api_v2_http_client_get http now path ps w =
     (Inr r, log_osu_api_response now r (w\<lparr>sent := sent w @
        [\<lparr>http_method = ''GET'', url = osu_api_v2_base_url @ path, params = ps\<rparr>]\<rparr>))"
  by (simp add: osu_api_v2_http_client_get_def)

lemma hook_payload_logs:
  "filter is_payload_log (logs (log_osu_api_response now r w)) = filter is_payload_log (logs w)"
  by (simp add: log_osu_api_response_def logging_info_def emit_def)

lemma hook_sent: "sent (log_osu_api_response now r w) = sent w"
  by (simp add: log_osu_api_response_def logging_info_def emit_def)

lemma log_and_raise_raised:
  "filter is_payload_log (logs w1) = filter is_payload_log (logs w) \<Longrightarrow>
   raised_after_logging m p e w (log_and_raise m p e w1)"
  by (simp add: raised_after_logging_def log_and_raise_def logging_exception_def emit_def)

lemma log_and_raise_sent: "sent (snd (log_and_raise m p e w)) = sent w"
  by (simp add: log_and_raise_def logging_exception_def emit_def)

lemma decode_response_status:
  "\<not> is_success r \<Longrightarrow>
   decode_response m model r w = log_and_raise m None (HTTPStatusError (status_code r)) w"
  by (simp add: decode_response_def raise_for_status_def)

lemma decode_response_json_raises:
  "is_success r \<Longrightarrow> json r = Inl e \<Longrightarrow> decode_response m model r w = log_and_raise m None e w"
  by (simp add: decode_response_def raise_for_status_def)

lemma decode_response_json_null:
  "is_success r \<Longrightarrow> json r = Inr None \<Longrightarrow>
   decode_response m model r w = log_and_raise m None AssertionError w"
  by (simp add: decode_response_def raise_for_status_def)

lemma decode_response_model_raises:
  "is_success r \<Longrightarrow> json r = Inr (Some d) \<Longrightarrow> model d = Inl e \<Longrightarrow>
   decode_response m model r w = log_and_raise m (Some d) e w"
  by (simp add: decode_response_def raise_for_status_def)


lemma decode_response_cases:
  "(\<exists>e p. decode_response m model r w = log_and_raise m p e w) \<or>
   (\<exists>v. decode_response m model r w = (Inr v, w))"
  by (auto simp: decode_response_def split: option.splits sum.splits)

lemma log_and_raise_fst: "fst (log_and_raise m p e w) = Inl e"
  by (simp add: log_and_raise_def)

lemma not_success_404: "status_code r = 404 \<Longrightarrow> \<not> is_success r"
  by (simp add: is_success_def)



lemma decode_response_sent: "sent (snd (decode_response m model r w)) = sent w"
  using decode_response_cases [of m model r w]
  by (auto simp: log_and_raise_sent)

lemma decode_response_raised:
  assumes "filter is_payload_log (logs w1) = filter is_payload_log (logs w)"
    and "fst (decode_response m model r w1) = Inl e"
  shows "\<exists>p. raised_after_logging m p e w (decode_response m model r w1)"
proof -
  from decode_response_cases [of m model r w1]
  obtain e' p where eq: "decode_response m model r w1 = log_and_raise m p e' w1"
    using assms(2) by auto
  with assms(2) have "e' = e"
    by (simp add: log_and_raise_fst)
  with eq assms(1) show ?thesis
    using log_and_raise_raised [of w1 w m p e] by auto
qed









lemma search_beatmapsets_unfold:
  fixes w :: "('j, 'm) world" and model :: "'j \<Rightarrow> exception + 'r"
  assumes req_def:
      "req = \<lparr>http_method = ''GET'', url = osu_api_v2_base_url @ ''beatmapsets/search'',
              params = [(''q'', PStr query), (''m'', PGameMode mode),
                        (''r'', PRankedStatus ranked_status), (''page'', PInt page),
                        (''limit'', PInt page_size),
                        (''cursor_string'', str_or_none cursor_string)]\<rparr>"
    and res_def:
      "res = search_beatmapsets model http now query ranked_status mode page page_size
               cursor_string w"
    and w1_def: "w1 = w\<lparr>sent := sent w @ [req]\<rparr>"
    and m_def: "m = ''Failed to fetch beatmapsets from osu! API''"
  shows "(\<forall>x. http req = Raises x \<longrightarrow> res = log_and_raise m None x w1)
       \<and> (\<forall>r. http req = Returns r \<longrightarrow>
              res = decode_response m model r (log_osu_api_response now r w1))"
proof (intro conjI allI impI)
  fix x assume "http req = Raises x"
  then show "res = log_and_raise m None x w1"
    using client_get_Raises [of http "''beatmapsets/search''" "params req" x now w]
    by (simp add: res_def search_beatmapsets_def req_def w1_def m_def)
next
  fix r assume "http req = Returns r"
  then show "res = decode_response m model r (log_osu_api_response now r w1)"
    using client_get_Returns [of http "''beatmapsets/search''" "params req" r now w]
    by (simp add: res_def search_beatmapsets_def req_def w1_def m_def)
qed


text \<open>
  Claim C2. \<open>search_beatmapsets\<close> returns a value only when the status is 2xx, the body
  parses to a non-null payload and the \<open>BeatmapsetSearchResponse\<close> constructor accepts
  it, and the value returned is the constructor's; there is no absence value in its
  result. Every other outcome, a 404 among them, is an exception raised after the payload
  record has been logged.
\<close>

theorem search_beatmapsets_always_raises_or_decodes:
  "let req = \<lparr>http_method = ''GET'', url = osu_api_v2_base_url @ ''beatmapsets/search'',
               params = [(''q'', PStr query), (''m'', PGameMode mode),
                         (''r'', PRankedStatus ranked_status), (''page'', PInt page),
                         (''limit'', PInt page_size),
                         (''cursor_string'', str_or_none cursor_string)]\<rparr>;
       res = search_beatmapsets BeatmapsetSearchResponse http now query ranked_status mode
               page page_size cursor_string (w :: ('j, 'm) world);
       m = ''Failed to fetch beatmapsets from osu! API''
   in (fst res = Inr v \<longleftrightarrow>
         (\<exists>r d. http req = Returns r \<and> is_success r \<and> json r = Inr (Some d) \<and>
                BeatmapsetSearchResponse d = Inr v))
    \<and> (\<forall>x. fst res = Inl x \<longrightarrow> (\<exists>p. raised_after_logging m p x w res))
    \<and> (http req = Raises e \<longrightarrow> raised_after_logging m None e w res)
    \<and> (http req = Returns r \<and> \<not> is_success r \<longrightarrow>
          raised_after_logging m None (HTTPStatusError (status_code r)) w res)
    \<and> (http req = Returns r \<and> status_code r = 404 \<longrightarrow>
          raised_after_logging m None (HTTPStatusError 404) w res)
    \<and> (http req = Returns r \<and> is_success r \<and> json r = Inl e \<longrightarrow>
          raised_after_logging m None e w res)
    \<and> (http req = Returns r \<and> is_success r \<and> json r = Inr None \<longrightarrow>
          raised_after_logging m None AssertionError w res)
    \<and> (http req = Returns r \<and> is_success r \<and> json r = Inr (Some d) \<and>
        BeatmapsetSearchResponse d = Inl e \<longrightarrow>
          raised_after_logging m (Some d) e w res)"
proof -
  define req :: "'m request" where
    "req = \<lparr>http_method = ''GET'', url = osu_api_v2_base_url @ ''beatmapsets/search'',
             params = [(''q'', PStr query), (''m'', PGameMode mode),
                       (''r'', PRankedStatus ranked_status), (''page'', PInt page),
                       (''limit'', PInt page_size),
                       (''cursor_string'', str_or_none cursor_string)]\<rparr>"
  define res where
    "res = search_beatmapsets BeatmapsetSearchResponse http now query ranked_status mode
             page page_size cursor_string w"
  define w1 where "w1 = w\<lparr>sent := sent w @ [req]\<rparr>"
  define m where "m = ''Failed to fetch beatmapsets from osu! API''"
  note u = search_beatmapsets_unfold [OF req_def res_def w1_def m_def]
  have raises: "res = log_and_raise m None x w1" if "http req = Raises x" for x
    using u that by blast
  have returns: "res = decode_response m BeatmapsetSearchResponse r
                         (log_osu_api_response now r w1)"
    if "http req = Returns r" for r
    using u that by blast
  have pl1: "filter is_payload_log (logs w1) = filter is_payload_log (logs w)"
    by (simp add: w1_def)
  have pl2: "filter is_payload_log (logs (log_osu_api_response now r' w1)) =
             filter is_payload_log (logs w)" for r'
    by (simp add: hook_payload_logs pl1)
  have A: "fst res = Inr v \<longleftrightarrow>
             (\<exists>r d. http req = Returns r \<and> is_success r \<and> json r = Inr (Some d) \<and>
                    BeatmapsetSearchResponse d = Inr v)"
  proof (cases "http req")
    case (Raises x)
    then show ?thesis using raises [OF Raises] by (simp add: log_and_raise_fst)
  next
    case (Returns r')
    show ?thesis
      unfolding returns [OF Returns] Returns
      by (auto simp: decode_response_def raise_for_status_def log_and_raise_def
               split: sum.splits option.splits)
  qed
  have B: "\<exists>p. raised_after_logging m p x w res" if "fst res = Inl x" for x
  proof (cases "http req")
    case (Raises y)
    with that raises [OF Raises] have "y = x" by (simp add: log_and_raise_fst)
    then show ?thesis using raises [OF Raises] log_and_raise_raised [OF pl1] by auto
  next
    case (Returns r')
    from that show ?thesis
      unfolding returns [OF Returns]
      by (rule decode_response_raised [OF pl2])
  qed
  have C: "raised_after_logging m None e w res" if "http req = Raises e" for e
    using raises [OF that] log_and_raise_raised [OF pl1] by simp
  have D: "raised_after_logging m None (HTTPStatusError (status_code r)) w res"
    if "http req = Returns r" "\<not> is_success r" for r
    by (simp add: returns [OF that(1)] decode_response_status [OF that(2)]
          log_and_raise_raised [OF pl2])
  have D404: "raised_after_logging m None (HTTPStatusError 404) w res"
    if "http req = Returns r" "status_code r = 404" for r
    using D [OF that(1) not_success_404 [OF that(2)]] that(2) by simp
  have E: "raised_after_logging m None e w res"
    if "http req = Returns r" "is_success r" "json r = Inl e" for r e
    by (simp add: returns [OF that(1)] decode_response_json_raises [OF that(2,3)]
          log_and_raise_raised [OF pl2])
  have F: "raised_after_logging m None AssertionError w res"
    if "http req = Returns r" "is_success r" "json r = Inr None" for r
    by (simp add: returns [OF that(1)] decode_response_json_null [OF that(2,3)]
          log_and_raise_raised [OF pl2])
  have G: "raised_after_logging m (Some d) e w res"
    if "http req = Returns r" "is_success r" "json r = Inr (Some d)"
       "BeatmapsetSearchResponse d = Inl e" for r d e
    by (simp add: returns [OF that(1)]
          decode_response_model_raises [where model = BeatmapsetSearchResponse, OF that(2,3,4)]
          log_and_raise_raised [OF pl2])
  show ?thesis
    unfolding Let_def req_def [symmetric] res_def [symmetric] m_def [symmetric]
    using A B C D D404 E F G by blast
qed

theorem search_beatmapsets_always_raises_or_decodes_witness:
  "let w0 = \<lparr>logs = [], sent = []\<rparr> :: (nat, unit) world;
       t = \<lparr>year = 2024, month = 6, day = 20, hour = 12, minute = 34, second = 56,
            microsecond = 789\<rparr>;
       M = (\<lambda>d. if d = 7 then Inr d else Inl ValidationError) :: nat \<Rightarrow> exception + nat;
       R = (\<lambda>s j. \<lparr>request_url = ''https://osu.ppy.sh/api/v2/'', status_code = s,
                    headers_get = Map.empty, read = [], json = j\<rparr>);
       m = ''Failed to fetch beatmapsets from osu! API''
   in raised_after_logging m None (ClientException ''timeout'') w0
         (search_beatmapsets M (\<lambda>_. Raises (ClientException ''timeout'')) t ''camellia''
          SearchLegacyRankedStatus.RANKED () 1 50 None w0)
    \<and> raised_after_logging m None (HTTPStatusError 500) w0
         (search_beatmapsets M (\<lambda>_. Returns (R 500 (Inr (Some 7)))) t ''camellia''
          SearchLegacyRankedStatus.RANKED () 1 50 None w0)
    \<and> raised_after_logging m None (HTTPStatusError 404) w0
         (search_beatmapsets M (\<lambda>_. Returns (R 404 (Inr None))) t ''camellia''
          SearchLegacyRankedStatus.RANKED () 1 50 None w0)
    \<and> raised_after_logging m None JSONDecodeError w0
         (search_beatmapsets M (\<lambda>_. Returns (R 200 (Inl JSONDecodeError))) t ''camellia''
          SearchLegacyRankedStatus.RANKED () 1 50 None w0)
    \<and> raised_after_logging m None AssertionError w0
         (search_beatmapsets M (\<lambda>_. Returns (R 200 (Inr None))) t ''camellia''
          SearchLegacyRankedStatus.RANKED () 1 50 None w0)
    \<and> raised_after_logging m (Some 3) ValidationError w0
         (search_beatmapsets M (\<lambda>_. Returns (R 200 (Inr (Some 3)))) t ''camellia''
          SearchLegacyRankedStatus.RANKED () 1 50 None w0)
    \<and> (\<exists>p. raised_after_logging m p (HTTPStatusError 500) w0
         (search_beatmapsets M (\<lambda>_. Returns (R 500 (Inr (Some 7)))) t ''camellia''
          SearchLegacyRankedStatus.RANKED () 1 50 None w0))"
proof -
  let ?w0 = "\<lparr>logs = [], sent = []\<rparr> :: (nat, unit) world"
  let ?t = "\<lparr>year = 2024, month = 6, day = 20, hour = 12, minute = 34, second = 56,
             microsecond = 789\<rparr>"
  let ?M = "(\<lambda>d. if d = 7 then Inr d else Inl ValidationError) :: nat \<Rightarrow> exception + nat"
  let ?R = "\<lambda>s j. \<lparr>request_url = ''https://osu.ppy.sh/api/v2/'', status_code = s,
                    headers_get = Map.empty, read = [], json = j :: exception + nat option\<rparr>"
  let ?m = "''Failed to fetch beatmapsets from osu! API''"
  note c = search_beatmapsets_always_raises_or_decodes
    [where BeatmapsetSearchResponse = ?M and now = ?t and w = ?w0 and query = "''camellia''"
       and ranked_status = SearchLegacyRankedStatus.RANKED and mode = "()" and page = 1
       and page_size = 50 and cursor_string = None and v = 7, unfolded Let_def]
  have transport:
    "raised_after_logging ?m None (ClientException ''timeout'') ?w0
       (search_beatmapsets ?M (\<lambda>_. Raises (ClientException ''timeout'')) ?t ''camellia''
          SearchLegacyRankedStatus.RANKED () 1 50 None ?w0)"
    using c [where http = "\<lambda>_. Raises (ClientException ''timeout'')" and r = "?R 500 (Inr None)" and e = "ClientException ''timeout''" and d = 0]
    by simp
  have status:
    "raised_after_logging ?m None (HTTPStatusError 500) ?w0
       (search_beatmapsets ?M (\<lambda>_. Returns (?R 500 (Inr (Some 7)))) ?t ''camellia''
          SearchLegacyRankedStatus.RANKED () 1 50 None ?w0)"
    using c [where http = "\<lambda>_. Returns (?R 500 (Inr (Some 7)))" and r = "?R 500 (Inr (Some 7))" and e = JSONDecodeError and d = 0]
    by (simp add: is_success_def)
  have not_found:
    "raised_after_logging ?m None (HTTPStatusError 404) ?w0
       (search_beatmapsets ?M (\<lambda>_. Returns (?R 404 (Inr None))) ?t ''camellia''
          SearchLegacyRankedStatus.RANKED () 1 50 None ?w0)"
    using c [where http = "\<lambda>_. Returns (?R 404 (Inr None))" and r = "?R 404 (Inr None)" and e = JSONDecodeError and d = 0]
    by (simp add: is_success_def)
  have json_raises:
    "raised_after_logging ?m None JSONDecodeError ?w0
       (search_beatmapsets ?M (\<lambda>_. Returns (?R 200 (Inl JSONDecodeError))) ?t ''camellia''
          SearchLegacyRankedStatus.RANKED () 1 50 None ?w0)"
    using c [where http = "\<lambda>_. Returns (?R 200 (Inl JSONDecodeError))" and r = "?R 200 (Inl JSONDecodeError)" and e = JSONDecodeError and d = 0]
    by (simp add: is_success_def)
  have json_null:
    "raised_after_logging ?m None AssertionError ?w0
       (search_beatmapsets ?M (\<lambda>_. Returns (?R 200 (Inr None))) ?t ''camellia''
          SearchLegacyRankedStatus.RANKED () 1 50 None ?w0)"
    using c [where http = "\<lambda>_. Returns (?R 200 (Inr None))" and r = "?R 200 (Inr None)" and e = JSONDecodeError and d = 0]
    by (simp add: is_success_def)
  have model_raises:
    "raised_after_logging ?m (Some 3) ValidationError ?w0
       (search_beatmapsets ?M (\<lambda>_. Returns (?R 200 (Inr (Some 3)))) ?t ''camellia''
          SearchLegacyRankedStatus.RANKED () 1 50 None ?w0)"
    using c [where http = "\<lambda>_. Returns (?R 200 (Inr (Some 3)))" and r = "?R 200 (Inr (Some 3))" and e = ValidationError and d = 3]
    by (simp add: is_success_def)
  have "fst (search_beatmapsets ?M (\<lambda>_. Returns (?R 500 (Inr (Some 7)))) ?t ''camellia''
          SearchLegacyRankedStatus.RANKED () 1 50 None ?w0) =
          Inl (HTTPStatusError 500)"
    using status by (simp add: raised_after_logging_def)
  then have every_raise:
    "\<exists>p. raised_after_logging ?m p (HTTPStatusError 500) ?w0
           (search_beatmapsets ?M (\<lambda>_. Returns (?R 500 (Inr (Some 7)))) ?t ''camellia''
          SearchLegacyRankedStatus.RANKED () 1 50 None ?w0)"
    using c [where http = "\<lambda>_. Returns (?R 500 (Inr (Some 7)))" and r = "?R 500 (Inr (Some 7))" and e = JSONDecodeError and d = 0]
    by blast
  show ?thesis
    unfolding Let_def
    using transport status not_found json_raises json_null model_raises every_raise
    by blast
qed

text \<open>
  Claim C7. Called with a cursor string, \<open>search_beatmapsets\<close> sends one request whose
  \<open>cursor_string\<close> parameter is that very string; the other parameters are the
  arguments as given.
\<close>

theorem search_beatmapsets_cursor_string:
  "sent (snd (search_beatmapsets BeatmapsetSearchResponse http now query ranked_status mode
                page page_size (Some cs) (w :: ('j, 'm) world))) =
     sent w @
       [\<lparr>http_method = ''GET'', url = osu_api_v2_base_url @ ''beatmapsets/search'',
         params = [(''q'', PStr query), (''m'', PGameMode mode),
                   (''r'', PRankedStatus ranked_status), (''page'', PInt page),
                   (''limit'', PInt page_size), (''cursor_string'', PStr cs)]\<rparr>]
   \<and> map_of (params (last (sent (snd (search_beatmapsets BeatmapsetSearchResponse http now
                  query ranked_status mode page page_size (Some cs) w))))) ''cursor_string'' =
       Some (PStr cs)"
proof -
  define req :: "'m request" where
    "req = \<lparr>http_method = ''GET'', url = osu_api_v2_base_url @ ''beatmapsets/search'',
             params = [(''q'', PStr query), (''m'', PGameMode mode),
                       (''r'', PRankedStatus ranked_status), (''page'', PInt page),
                       (''limit'', PInt page_size),
                       (''cursor_string'', str_or_none (Some cs))]\<rparr>"
  define res where
    "res = search_beatmapsets BeatmapsetSearchResponse http now query ranked_status mode
             page page_size (Some cs) w"
  define w1 where "w1 = w\<lparr>sent := sent w @ [req]\<rparr>"
  define m where "m = ''Failed to fetch beatmapsets from osu! API''"
  note u = search_beatmapsets_unfold [OF req_def res_def w1_def m_def]
  have "sent (snd res) = sent w @ [req]"
  proof (cases "http req")
    case (Raises x)
    with u have "res = log_and_raise m None x w1" by blast
    then show ?thesis by (simp add: log_and_raise_sent w1_def)
  next
    case (Returns r)
    with u have "res = decode_response m BeatmapsetSearchResponse r
                         (log_osu_api_response now r w1)" by blast
    then show ?thesis by (simp add: decode_response_sent hook_sent w1_def)
  qed
  then show ?thesis
    by (simp add: res_def req_def str_or_none_def)
qed

section \<open>Properties of the mirror backends\<close>

lemma mirror_get_Raises:
  "http \<lparr>http_method = ''GET'', url = u, params = []\<rparr> = Raises e \<Longrightarrow>
   fst (mirror_http_client_get http u w) = Inl e"
  by (simp add: mirror_http_client_get_def)

lemma mirror_get_Returns:
  "http \<lparr>http_method = ''GET'', url = u, params = []\<rparr> = Returns r \<Longrightarrow>
   fst (mirror_http_client_get http u w) = Inr r"
  by (simp add: mirror_http_client_get_def)

lemma MinoMirror_result:
  "fst (MinoMirror_fetch_beatmap_zip_data http beatmapset_id w) =
     (case http \<lparr>http_method = ''GET'',
                 url = MinoMirror_base_url @ ''/d/'' @ str_int beatmapset_id, params = []\<rparr> of
        Raises e \<Rightarrow> Inr None
      | Returns r \<Rightarrow> if is_success r then Inr (Some (read r)) else Inr None)"
  by (simp add: MinoMirror_fetch_beatmap_zip_data_def mirror_http_client_get_def
        MinoMirror_except_def raise_for_status_def Let_def split: http_outcome.splits)

lemma RippleMirror_result:
  "fst (RippleMirror_fetch_beatmap_zip_data http beatmapset_id w) =
     (case http \<lparr>http_method = ''GET'',
                 url = RippleMirror_base_url @ ''/d/'' @ str_int beatmapset_id, params = []\<rparr> of
        Raises e \<Rightarrow> Inl (MirrorRequestError e)
      | Returns r \<Rightarrow>
          if status_code r = 404 then Inr None
          else if is_success r then Inr (Some (read r))
          else Inl (MirrorRequestError (HTTPStatusError (status_code r))))"
  by (simp add: RippleMirror_fetch_beatmap_zip_data_def mirror_http_client_get_def
        RippleMirror_except_def raise_for_status_def Let_def split: http_outcome.splits)

text \<open>
  Claim C3. On both mirrors, \<open>RippleMirror\<close> and \<open>MinoMirror\<close>, and for every
  beatmapset id: when the mirror answers the request for \<open>{base_url}/d/{id}\<close> with
  status 404, \<open>fetch_beatmap_zip_data\<close> returns \<open>None\<close> and raises nothing.
\<close>

theorem mirrors_404_NotFound:
  "(http \<lparr>http_method = ''GET'',
          url = RippleMirror_base_url @ ''/d/'' @ str_int beatmapset_id, params = []\<rparr> = Returns r
      \<and> status_code r = 404
    \<longrightarrow> fst (RippleMirror_fetch_beatmap_zip_data http beatmapset_id w) = Inr None)
   \<and> (http \<lparr>http_method = ''GET'',
            url = MinoMirror_base_url @ ''/d/'' @ str_int beatmapset_id, params = []\<rparr> = Returns r
        \<and> status_code r = 404
      \<longrightarrow> fst (MinoMirror_fetch_beatmap_zip_data http beatmapset_id w) = Inr None)"
  by (simp add: RippleMirror_result MinoMirror_result is_success_def)

theorem mirrors_404_NotFound_witness:
  "fst (RippleMirror_fetch_beatmap_zip_data
          (\<lambda>_. Returns \<lparr>request_url = ''https://storage.ripple.moe/d/123'', status_code = 404,
                         headers_get = Map.empty, read = ''Not Found'',
                         json = Inl JSONDecodeError :: exception + unit option\<rparr>)
          123 (\<lparr>logs = [], sent = []\<rparr> :: (unit, unit) world)) = Inr None
   \<and> fst (MinoMirror_fetch_beatmap_zip_data
          (\<lambda>_. Returns \<lparr>request_url = ''https://catboy.best/d/123'', status_code = 404,
                         headers_get = Map.empty, read = ''Not Found'',
                         json = Inl JSONDecodeError :: exception + unit option\<rparr>)
          123 (\<lparr>logs = [], sent = []\<rparr> :: (unit, unit) world)) = Inr None"
  using
    mirrors_404_NotFound
      [where http = "\<lambda>_. Returns \<lparr>request_url = ''https://storage.ripple.moe/d/123'',
                       status_code = 404, headers_get = Map.empty, read = ''Not Found'',
                       json = Inl JSONDecodeError :: exception + unit option\<rparr>"
         and r = "\<lparr>request_url = ''https://storage.ripple.moe/d/123'',
                       status_code = 404, headers_get = Map.empty, read = ''Not Found'',
                       json = Inl JSONDecodeError :: exception + unit option\<rparr>"
         and beatmapset_id = 123 and w = "\<lparr>logs = [], sent = []\<rparr> :: (unit, unit) world"]
    mirrors_404_NotFound
      [where http = "\<lambda>_. Returns \<lparr>request_url = ''https://catboy.best/d/123'',
                       status_code = 404, headers_get = Map.empty, read = ''Not Found'',
                       json = Inl JSONDecodeError :: exception + unit option\<rparr>"
         and r = "\<lparr>request_url = ''https://catboy.best/d/123'',
                       status_code = 404, headers_get = Map.empty, read = ''Not Found'',
                       json = Inl JSONDecodeError :: exception + unit option\<rparr>"
         and beatmapset_id = 123 and w = "\<lparr>logs = [], sent = []\<rparr> :: (unit, unit) world"]
  by simp



end
